theory Spec2Isabelle
  imports Main "HOL-Library.Monad_Syntax" "HOL-Library.AList"
begin

section \<open>JavaScript values\<close>

text \<open>
  The recorder is JavaScript: its objects are untyped property bags and every handler
  takes whatever value it is passed. The model keeps that. A value is \<open>undefined\<close>,
  \<open>null\<close>, a boolean, a number, a string, an array or an object; an object is its list
  of own properties in insertion order. Objects are values here, not references. That
  is what the handlers observe: each object they write to (a map entry, the response
  held by an entry, a redirect chain) is a literal they built themselves and is reachable
  through that one entry only, and they never compare two objects by identity. Numbers
  are the integers the protocol carries (status codes, sizes, timestamps).
\<close>

datatype jsval =
    JUndefined
  | JNull
  | JBool bool
  | JNum int
  | JStr string
  | JArr "jsval list"
  | JObj "(string \<times> jsval) list"

type_synonym jsobj = "(string \<times> jsval) list"

text \<open>
  A computation that may throw returns an option: \<open>None\<close> is a thrown exception
  (a \<open>TypeError\<close> of the language or an exception of a library call), \<open>Some v\<close> is
  normal completion with value \<open>v\<close>.
\<close>

text \<open>\<open>!v\<close> is false exactly for the truthy values.\<close>

fun truthy :: "jsval \<Rightarrow> bool" where
  "truthy JUndefined = False"
| "truthy JNull = False"
| "truthy (JBool b) = b"
| "truthy (JNum n) = (n \<noteq> 0)"
| "truthy (JStr s) = (s \<noteq> [])"
| "truthy (JArr xs) = True"
| "truthy (JObj fs) = True"

text \<open>\<open>a || b\<close> on values that are already computed.\<close>

definition js_or :: "jsval \<Rightarrow> jsval \<Rightarrow> jsval" where
  "js_or a b = (if truthy a then a else b)"

text \<open>
  \<open>v.k\<close>: reading a property of \<open>undefined\<close> or \<open>null\<close> throws; an object yields
  the property or \<open>undefined\<close>; a primitive or an array has none of the data
  properties this program reads, so the read yields \<open>undefined\<close>.
\<close>

fun getprop :: "jsval \<Rightarrow> string \<Rightarrow> jsval option" where
  "getprop JUndefined k = None"
| "getprop JNull k = None"
| "getprop (JObj fs) k = Some (case map_of fs k of None \<Rightarrow> JUndefined | Some v \<Rightarrow> v)"
| "getprop v k = Some JUndefined"

text \<open>\<open>v?.k\<close>: optional chaining yields \<open>undefined\<close> where \<open>v.k\<close> would throw.\<close>

definition getprop_opt :: "jsval \<Rightarrow> string \<Rightarrow> jsval" where
  "getprop_opt v k = (case getprop v k of None \<Rightarrow> JUndefined | Some x \<Rightarrow> x)"

text \<open>
  \<open>v.k = x\<close>. The sources are ES modules, hence strict code: assigning a property of
  \<open>undefined\<close>, \<open>null\<close> or a primitive throws. On an object the property is replaced
  in place or appended. (An array carrying named properties has no representation in
  \<open>jsval\<close>; the program never assigns a property of an array.)
\<close>

fun setprop :: "jsval \<Rightarrow> string \<Rightarrow> jsval \<Rightarrow> jsval option" where
  "setprop (JObj fs) k x = Some (JObj (AList.update k x fs))"
| "setprop v k x = None"

text \<open>
  An object literal \<open>{k1: v.k1, k2: v.k2, ...}\<close> that copies the named properties of
  \<open>v\<close>, in the order written. Every key becomes an own property of the result, also when
  its value is \<open>undefined\<close>.
\<close>

fun pick :: "jsval \<Rightarrow> string list \<Rightarrow> jsobj option" where
  "pick v [] = Some []"
| "pick v (k # ks) = do { x \<leftarrow> getprop v k; rest \<leftarrow> pick v ks; Some ((k, x) # rest) }"

subsection \<open>String methods\<close>

fun startsWith :: "string \<Rightarrow> string \<Rightarrow> bool" where
  "startsWith s [] = True"
| "startsWith [] (c # cs) = False"
| "startsWith (x # xs) (c # cs) = (x = c \<and> startsWith xs cs)"

text \<open>\<open>s.indexOf(sub)\<close>; \<open>None\<close> stands for the result \<open>-1\<close>.\<close>

fun indexOf :: "string \<Rightarrow> string \<Rightarrow> nat option" where
  "indexOf [] sub = (if sub = [] then Some 0 else None)"
| "indexOf (c # cs) sub =
     (if startsWith (c # cs) sub then Some 0 else map_option Suc (indexOf cs sub))"

text \<open>
  The method call \<open>v.includes(sub)\<close> with a string argument: a substring test on a
  string, a membership test on an array, and a \<open>TypeError\<close> (\<open>includes\<close> is not a
  function) on every other value.
\<close>

fun js_includes :: "jsval \<Rightarrow> string \<Rightarrow> bool option" where
  "js_includes (JStr s) sub = Some (indexOf s sub \<noteq> None)"
| "js_includes (JArr xs) sub = Some (JStr sub \<in> set xs)"
| "js_includes v sub = None"

text \<open>
  \<open>v.indexOf(sub)\<close> and \<open>v.substring(n)\<close>. The outer option is the exception, the
  inner one of \<open>js_indexOf\<close> the result \<open>-1\<close>.
\<close>

fun js_indexOf :: "jsval \<Rightarrow> string \<Rightarrow> nat option option" where
  "js_indexOf (JStr s) sub = Some (indexOf s sub)"
| "js_indexOf (JArr xs) sub =
     Some (if JStr sub \<in> set xs then Some (length (takeWhile (\<lambda>x. x \<noteq> JStr sub) xs)) else None)"
| "js_indexOf v sub = None"

fun js_substring :: "jsval \<Rightarrow> nat \<Rightarrow> jsval option" where
  "js_substring (JStr s) n = Some (JStr (drop n s))"
| "js_substring v n = None"

subsection \<open>Library calls\<close>

text \<open>
  The runtime's library is not part of the repository; the model takes it as a
  parameter and every theorem holds for each behaviour of it.
  \<^item> \<open>buffer_from_base64 b\<close> is \<open>Buffer.from(b, 'base64').toString('utf-8')\<close>: the
    decoded text, or an exception.
  \<^item> \<open>json_parse v\<close> is \<open>JSON.parse(v)\<close>: the parsed value, or a \<open>SyntaxError\<close>.
  \<^item> \<open>json_stringify v\<close> is \<open>JSON.stringify(v, null, 2)\<close>.
  \<^item> \<open>url_search v\<close> is \<open>new URL(v).search\<close>: the query component with its leading
    \<open>?\<close> (empty when the URL has none), or the constructor's exception for a string that
    is not a URL.
\<close>

record platform =
  buffer_from_base64 :: "jsval \<Rightarrow> string option"
  json_parse :: "jsval \<Rightarrow> jsval option"
  json_stringify :: "jsval \<Rightarrow> jsval option"
  url_search :: "jsval \<Rightarrow> string option"

section \<open>Data filters (src/core/data-filters.js)\<close>

text \<open>The four toggles of \<open>this.filters\<close>.\<close>

record filter_config =
  headers :: bool
  payload :: bool
  preview :: bool
  response :: bool

text \<open>\<open>new DataFilters(options)\<close>: a toggle that the options leave out is on.\<close>

definition DataFilters :: "bool option \<Rightarrow> bool option \<Rightarrow> bool option \<Rightarrow> bool option \<Rightarrow> filter_config" where
  "DataFilters h p v r =
     \<lparr> headers = (case h of Some b \<Rightarrow> b | None \<Rightarrow> True),
       payload = (case p of Some b \<Rightarrow> b | None \<Rightarrow> True),
       preview = (case v of Some b \<Rightarrow> b | None \<Rightarrow> True),
       response = (case r of Some b \<Rightarrow> b | None \<Rightarrow> True) \<rparr>"

definition request_fields :: "string list" where
  "request_fields = [''requestId'', ''url'', ''method'', ''resourceType'', ''referrer'',
     ''queryString'', ''initiator'', ''frameId'', ''timestamp'']"

definition applyToRequest :: "filter_config \<Rightarrow> jsval \<Rightarrow> jsval option" where
  "applyToRequest f req =
     (if \<not> truthy req then Some JNull
      else do {
        filtered \<leftarrow> pick req request_fields;
        hs \<leftarrow> (if headers f
               then do { h \<leftarrow> getprop req ''headers''; Some (js_or h (JObj [])) }
               else Some (JObj []));
        pd \<leftarrow> (if payload f
               then do { p \<leftarrow> getprop req ''postData''; Some (js_or p JNull) }
               else Some JNull);
        Some (JObj (AList.update ''postData'' pd (AList.update ''headers'' hs filtered)))
      })"

text \<open>
  \<open>generatePreview\<close>. \<open>preview_try\<close> is the body of the outer \<open>try\<close> block together
  with the \<open>return preview\<close> that follows it: its value is what the function returns
  from there, \<open>None\<close> an exception that reaches the outer \<open>catch\<close>.
\<close>

definition preview_obj :: "jsval \<Rightarrow> jsval \<Rightarrow> string \<Rightarrow> jsval" where
  "preview_obj formatted parsed ty =
     JObj [(''formatted'', formatted), (''parsed'', parsed), (''type'', JStr ty)]"

text \<open>
  Lines 190 to 198: the decoded body, \<open>None\<close> when decoding throws (the inner
  \<open>catch\<close> then returns \<open>null\<close>).
\<close>

definition decodedBody_of :: "platform \<Rightarrow> jsval \<Rightarrow> jsval \<Rightarrow> jsval option" where
  "decodedBody_of P body b64 =
     (if truthy b64 then map_option JStr (buffer_from_base64 P body) else Some body)"

definition preview_try :: "platform \<Rightarrow> jsval \<Rightarrow> jsval option" where
  "preview_try P resp = do {
     m \<leftarrow> getprop resp ''mimeType'';
     let mimeType = js_or m (JStr []);
     body \<leftarrow> getprop resp ''body'';
     b64 \<leftarrow> getprop resp ''base64Encoded'';
     (case decodedBody_of P body b64 of
        None \<Rightarrow> Some JNull
      | Some decodedBody \<Rightarrow> do {
          j1 \<leftarrow> js_includes mimeType ''json'';
          j \<leftarrow> (if j1 then Some True else js_includes mimeType ''application/json'');
          if j then
            (case json_parse P decodedBody of
               None \<Rightarrow> Some (preview_obj decodedBody JNull ''text'')
             | Some parsed \<Rightarrow>
                 (case json_stringify P parsed of
                    None \<Rightarrow> Some (preview_obj decodedBody parsed ''text'')
                  | Some pretty \<Rightarrow> Some (preview_obj pretty parsed ''json'')))
          else do {
            x \<leftarrow> js_includes mimeType ''xml'';
            if x then Some (preview_obj decodedBody JNull ''xml'')
            else do {
              h \<leftarrow> js_includes mimeType ''html'';
              if h then Some (preview_obj decodedBody JNull ''html'')
              else do {
                c \<leftarrow> js_includes mimeType ''css'';
                if c then Some (preview_obj decodedBody JNull ''css'')
                else do {
                  s1 \<leftarrow> js_includes mimeType ''javascript'';
                  s \<leftarrow> (if s1 then Some True else js_includes mimeType ''ecmascript'');
                  if s then Some (preview_obj decodedBody JNull ''javascript'')
                  else Some (preview_obj decodedBody JNull ''text'')
                }
              }
            }
          }
        })
   }"

definition generatePreview :: "platform \<Rightarrow> jsval \<Rightarrow> jsval option" where
  "generatePreview P resp =
     (if \<not> truthy resp then Some JNull
      else do {
        b \<leftarrow> getprop resp ''body'';
        if \<not> truthy b then Some JNull
        else (case preview_try P resp of None \<Rightarrow> Some JNull | Some r \<Rightarrow> Some r)
      })"

definition response_fields :: "string list" where
  "response_fields = [''status'', ''statusText'', ''mimeType'', ''fromCache'',
     ''fromServiceWorker'', ''protocol'', ''remoteIPAddress'', ''remotePort'', ''timestamp'']"

definition applyToResponse :: "platform \<Rightarrow> filter_config \<Rightarrow> jsval \<Rightarrow> jsval option" where
  "applyToResponse P f resp =
     (if \<not> truthy resp then Some JNull
      else do {
        filtered \<leftarrow> pick resp response_fields;
        hs \<leftarrow> (if headers f
               then do { h \<leftarrow> getprop resp ''headers''; Some (js_or h (JObj [])) }
               else Some (JObj []));
        raw \<leftarrow> (if response f
               then do {
                 b \<leftarrow> getprop resp ''body'';
                 e \<leftarrow> getprop resp ''base64Encoded'';
                 z \<leftarrow> getprop resp ''bodySize'';
                 Some (js_or b JNull, js_or e (JBool False), js_or z (JNum 0)) }
               else Some (JNull, JBool False, JNum 0));
        pv \<leftarrow> (if preview f then generatePreview P resp else Some JNull);
        Some (JObj (AList.update ''preview'' pv
               (AList.update ''bodySize'' (snd (snd raw))
               (AList.update ''base64Encoded'' (fst (snd raw))
               (AList.update ''body'' (fst raw)
               (AList.update ''headers'' hs filtered))))))
      })"

section \<open>Recording manager (src/managers/recording-manager.js, here src/unnamed/part_004)\<close>

text \<open>
  Every handler is an \<open>async\<close> function that awaits nothing before its last
  statement, so it runs to that point in one piece and its effect on the manager is one
  step.
\<close>

text \<open>
  The \<open>status\<close> strings \<open>'pending'\<close>, \<open>'response_received'\<close>, \<open>'completed'\<close> and
  \<open>'failed'\<close>.
\<close>

datatype lifecycle = Pending | ResponseReceived | Completed | Failed

text \<open>The object literal that \<open>handleRequest\<close> puts into \<open>requestMap\<close>.\<close>

record rr_record =
  rec_id :: jsval
  rec_sessionId :: jsval
  rec_requestId :: jsval
  rec_request :: jsval
  rec_response :: jsval
  rec_timing :: jsval
  rec_error :: jsval
  rec_status :: lifecycle
  rec_createdAt :: jsval

text \<open>
  The manager's fields. \<open>requestMap\<close> is a \<open>Map\<close>: an association list in insertion
  order with at most one entry per key; the keys are the protocol's request ids, which
  are primitive values. \<open>saved\<close> stands for the storage collaborator: the records passed
  to \<open>storageManager.saveRequestResponse\<close>, in call order, each as it was at the call.
  What the collaborator does with a record, and whether its promise is rejected later,
  is its own business and not part of the model.
\<close>

record rm_state =
  currentSessionId :: jsval
  requestMap :: "(jsval \<times> rr_record) list"
  filters :: filter_config
  saved :: "rr_record list"

definition RecordingManager :: rm_state where
  "RecordingManager =
     \<lparr> currentSessionId = JNull, requestMap = [],
       filters = DataFilters None None None None, saved = [] \<rparr>"

text \<open>\<open>filterOptions\<close> is \<open>None\<close> for \<open>null\<close>, else the options object's four toggles.\<close>

definition setSession ::
  "rm_state \<Rightarrow> jsval \<Rightarrow> (bool option \<times> bool option \<times> bool option \<times> bool option) option \<Rightarrow> rm_state" where
  "setSession s sessionId filterOptions =
     (let s1 = s\<lparr>currentSessionId := sessionId, requestMap := []\<rparr>
      in case filterOptions of
           None \<Rightarrow> s1
         | Some (h, p, v, r) \<Rightarrow> s1\<lparr>filters := DataFilters h p v r\<rparr>)"

definition setFilters :: "rm_state \<Rightarrow> filter_config \<Rightarrow> rm_state" where
  "setFilters s f = s\<lparr>filters := f\<rparr>"

definition getFilters :: "rm_state \<Rightarrow> filter_config" where
  "getFilters s = filters s"

text \<open>
  \<open>handleRequest\<close>; \<open>uuid\<close> is the value of \<open>uuidv4()\<close> and \<open>now\<close> that of
  \<open>new Date().toISOString()\<close> at the call.
\<close>

definition handleRequest :: "jsval \<Rightarrow> jsval \<Rightarrow> rm_state \<Rightarrow> jsval \<Rightarrow> rm_state option" where
  "handleRequest uuid now s req =
     (if \<not> truthy (currentSessionId s) then Some s
      else do {
        filteredRequest \<leftarrow> applyToRequest (filters s) req;
        rid \<leftarrow> getprop req ''requestId'';
        Some (s\<lparr>requestMap := AList.update rid
          \<lparr> rec_id = uuid, rec_sessionId = currentSessionId s, rec_requestId = rid,
            rec_request = filteredRequest, rec_response = JNull, rec_timing = JNull,
            rec_error = JNull, rec_status = Pending, rec_createdAt = now \<rparr>
          (requestMap s)\<rparr>)
      })"

definition handleResponse :: "platform \<Rightarrow> rm_state \<Rightarrow> jsval \<Rightarrow> jsval \<Rightarrow> rm_state option" where
  "handleResponse P s requestId resp =
     (case map_of (requestMap s) requestId of
        None \<Rightarrow> Some s
      | Some record \<Rightarrow> do {
          filteredResponse \<leftarrow> applyToResponse P (filters s) resp;
          Some (s\<lparr>requestMap := AList.update requestId
            (record\<lparr>rec_response := filteredResponse, rec_status := ResponseReceived\<rparr>)
            (requestMap s)\<rparr>)
        })"

text \<open>
  Lines 110 to 118 of \<open>handleRequestComplete\<close>: the value of \<open>record.response\<close>
  after the body data has been merged in and the filter applied again; a response that
  is \<open>null\<close> stays as it is.
\<close>

definition merge_body :: "platform \<Rightarrow> filter_config \<Rightarrow> jsval \<Rightarrow> jsval \<Rightarrow> jsval option" where
  "merge_body P f resp bodyData =
     (if truthy resp
      then do {
        b \<leftarrow> getprop bodyData ''body'';
        r1 \<leftarrow> setprop resp ''body'' b;
        e \<leftarrow> getprop bodyData ''base64Encoded'';
        r2 \<leftarrow> setprop r1 ''base64Encoded'' e;
        z \<leftarrow> getprop bodyData ''bodySize'';
        r3 \<leftarrow> setprop r2 ''bodySize'' z;
        applyToResponse P f r3 }
      else Some resp)"

definition handleRequestComplete :: "platform \<Rightarrow> rm_state \<Rightarrow> jsval \<Rightarrow> jsval \<Rightarrow> rm_state option" where
  "handleRequestComplete P s requestId bodyData =
     (case map_of (requestMap s) requestId of
        None \<Rightarrow> Some s
      | Some record \<Rightarrow> do {
          resp \<leftarrow> merge_body P (filters s) (rec_response record) bodyData;
          let record' = record\<lparr>rec_response := resp, rec_status := Completed\<rparr>;
          Some (s\<lparr>requestMap := AList.update requestId record' (requestMap s),
                  saved := saved s @ [record']\<rparr>)
        })"

text \<open>\<open>handleRequestFailed\<close> contains no operation that can throw.\<close>

definition handleRequestFailed :: "rm_state \<Rightarrow> jsval \<Rightarrow> jsval \<Rightarrow> rm_state" where
  "handleRequestFailed s requestId err =
     (case map_of (requestMap s) requestId of
        None \<Rightarrow> s
      | Some record \<Rightarrow>
          (let record' = record\<lparr>rec_error := err, rec_status := Failed\<rparr>
           in s\<lparr>requestMap := AList.update requestId record' (requestMap s),
                saved := saved s @ [record']\<rparr>))"

definition getRequest :: "rm_state \<Rightarrow> jsval \<Rightarrow> rr_record option" where
  "getRequest s requestId = map_of (requestMap s) requestId"

definition getAllRequests :: "rm_state \<Rightarrow> rr_record list" where
  "getAllRequests s = map snd (requestMap s)"

definition clear :: "rm_state \<Rightarrow> rm_state" where
  "clear s = s\<lparr>requestMap := []\<rparr>"

subsection \<open>Sequences of calls\<close>

text \<open>
  The calls of the manager's public interface, and a manager driven by a sequence of
  them. A call that throws has not written to the manager before: in each handler the
  reads that can throw come before the first write. So the state after it is the state
  before it, and the next call runs on that.
\<close>

datatype rm_call =
    SetSession jsval "(bool option \<times> bool option \<times> bool option \<times> bool option) option"
  | SetFilters filter_config
  | Clear
  | HandleRequest jsval jsval jsval
  | HandleResponse jsval jsval
  | HandleRequestComplete jsval jsval
  | HandleRequestFailed jsval jsval

fun rm_step :: "platform \<Rightarrow> rm_state \<Rightarrow> rm_call \<Rightarrow> rm_state option" where
  "rm_step P s (SetSession sessionId filterOptions) = Some (setSession s sessionId filterOptions)"
| "rm_step P s (SetFilters f) = Some (setFilters s f)"
| "rm_step P s Clear = Some (clear s)"
| "rm_step P s (HandleRequest uuid now req) = handleRequest uuid now s req"
| "rm_step P s (HandleResponse requestId resp) = handleResponse P s requestId resp"
| "rm_step P s (HandleRequestComplete requestId bodyData) = handleRequestComplete P s requestId bodyData"
| "rm_step P s (HandleRequestFailed requestId err) = Some (handleRequestFailed s requestId err)"

fun rm_calls :: "platform \<Rightarrow> rm_state \<Rightarrow> rm_call list \<Rightarrow> rm_state" where
  "rm_calls P s [] = s"
| "rm_calls P s (c # cs) = rm_calls P (case rm_step P s c of Some s' \<Rightarrow> s' | None \<Rightarrow> s) cs"

text \<open>The call is a \<open>handleRequest\<close> whose request carries the id.\<close>

fun requests :: "jsval \<Rightarrow> rm_call \<Rightarrow> bool" where
  "requests rid (HandleRequest uuid now req) = (getprop req ''requestId'' = Some rid)"
| "requests rid c = False"

text \<open>
  The call hands a record to storage: it is a terminal call for a tracked id that
  returns. \<open>handoffs\<close> counts such calls along a sequence.
\<close>

fun hands_over :: "platform \<Rightarrow> rm_state \<Rightarrow> rm_call \<Rightarrow> bool" where
  "hands_over P s (HandleRequestFailed requestId err) = (map_of (requestMap s) requestId \<noteq> None)"
| "hands_over P s (HandleRequestComplete requestId bodyData) =
     (map_of (requestMap s) requestId \<noteq> None \<and>
      handleRequestComplete P s requestId bodyData \<noteq> None)"
| "hands_over P s c = False"

fun handoffs :: "platform \<Rightarrow> rm_state \<Rightarrow> rm_call list \<Rightarrow> nat" where
  "handoffs P s [] = 0"
| "handoffs P s (c # cs) =
     (if hands_over P s c then 1 else 0)
     + handoffs P (case rm_step P s c of Some s' \<Rightarrow> s' | None \<Rightarrow> s) cs"

section \<open>Event handler (src/core/event-handler.js, here src/unnamed/part_003)\<close>

text \<open>
  The \<open>requestRecord\<close> literal of \<open>handleRequestWillBeSent\<close> and the entry literal of
  \<open>pendingRequests\<close>. Both are built only by this class, so their shape is fixed.
\<close>

record request_record =
  rq_requestId :: jsval
  rq_url :: jsval
  rq_method :: jsval
  rq_headers :: jsval
  rq_postData :: jsval
  rq_queryString :: jsval
  rq_referrer :: jsval
  rq_initiator :: jsval
  rq_resourceType :: jsval
  rq_frameId :: jsval
  rq_timestamp :: jsval
  rq_redirectChain :: "jsval list"

text \<open>The same literal as the value that is passed on to the recording manager.\<close>

definition request_record_obj :: "request_record \<Rightarrow> jsval" where
  "request_record_obj r = JObj
     [(''requestId'', rq_requestId r), (''url'', rq_url r), (''method'', rq_method r),
      (''headers'', rq_headers r), (''postData'', rq_postData r),
      (''queryString'', rq_queryString r), (''referrer'', rq_referrer r),
      (''initiator'', rq_initiator r), (''resourceType'', rq_resourceType r),
      (''frameId'', rq_frameId r), (''timestamp'', rq_timestamp r),
      (''redirectChain'', JArr (rq_redirectChain r))]"

record pending_entry =
  pend_request :: request_record
  pend_response :: jsval
  pend_timing :: jsval
  pend_error :: jsval
  pend_status :: lifecycle

record eh_state =
  recordingManager :: rm_state
  pendingRequests :: "(jsval \<times> pending_entry) list"

definition EventHandler :: "rm_state \<Rightarrow> eh_state" where
  "EventHandler rm = \<lparr> recordingManager = rm, pendingRequests = [] \<rparr>"

text \<open>
  Lines 18 to 29 of \<open>handleRequestWillBeSent\<close>: the query string of \<open>request.url\<close>.
  The first block is the \<open>try\<close>, the second the \<open>catch\<close>.
\<close>

definition queryString_of :: "platform \<Rightarrow> jsval \<Rightarrow> jsval option" where
  "queryString_of P request =
     (case do { u \<leftarrow> getprop request ''url'';
                search \<leftarrow> url_search P u;
                Some (if search \<noteq> [] then JStr (drop 1 search) else JNull) } of
        Some queryString \<Rightarrow> Some queryString
      | None \<Rightarrow> do {
          u \<leftarrow> getprop request ''url'';
          queryIndex \<leftarrow> js_indexOf u ''?'';
          (case queryIndex of
             None \<Rightarrow> Some JNull
           | Some i \<Rightarrow> js_substring u (i + 1))
        })"

text \<open>
  \<open>findOriginalRequest\<close> walks the entries in insertion order. The source returns the
  \<open>request\<close> object of the entry it finds; the model returns the key of that entry,
  which names the object to be updated.
\<close>

fun findOriginalRequest :: "(jsval \<times> pending_entry) list \<Rightarrow> jsval \<Rightarrow> jsval option" where
  "findOriginalRequest [] requestId = None"
| "findOriginalRequest ((k, pending) # rest) requestId =
     (if requestId \<in> set (rq_redirectChain (pend_request pending)) then Some k
      else findOriginalRequest rest requestId)"

text \<open>\<open>originalRequest.redirectChain.push(requestId)\<close> on the entry with key \<open>k\<close>.\<close>

definition push_redirect ::
  "jsval \<Rightarrow> jsval \<Rightarrow> (jsval \<times> pending_entry) list \<Rightarrow> (jsval \<times> pending_entry) list" where
  "push_redirect k requestId entries =
     map (\<lambda>(i, pending).
            if i = k
            then (i, pending\<lparr>pend_request := (pend_request pending)
                       \<lparr>rq_redirectChain := rq_redirectChain (pend_request pending) @ [requestId]\<rparr>\<rparr>)
            else (i, pending))
         entries"

text \<open>
  \<open>handleRequestWillBeSent\<close>; \<open>now\<close> is \<open>Date.now()\<close>, \<open>uuid\<close> and \<open>created\<close> are
  the two values the recording manager draws.
\<close>

definition handleRequestWillBeSent ::
  "platform \<Rightarrow> jsval \<Rightarrow> jsval \<Rightarrow> jsval \<Rightarrow> eh_state \<Rightarrow> jsval \<Rightarrow> eh_state option" where
  "handleRequestWillBeSent P now uuid created eh params = do {
     requestId \<leftarrow> getprop params ''requestId'';
     request \<leftarrow> getprop params ''request'';
     redirectResponse \<leftarrow> getprop params ''redirectResponse'';
     ty \<leftarrow> getprop params ''type'';
     frameId \<leftarrow> getprop params ''frameId'';
     queryString \<leftarrow> queryString_of P request;
     u \<leftarrow> getprop request ''url'';
     m \<leftarrow> getprop request ''method'';
     h \<leftarrow> getprop request ''headers'';
     pd \<leftarrow> getprop request ''postData'';
     rf \<leftarrow> getprop request ''referrer'';
     ini \<leftarrow> getprop params ''initiator'';
     let requestRecord =
       \<lparr> rq_requestId = requestId, rq_url = u, rq_method = m,
         rq_headers = js_or h (JObj []), rq_postData = js_or pd JNull,
         rq_queryString = queryString, rq_referrer = js_or rf JNull,
         rq_initiator = js_or ini JNull, rq_resourceType = ty, rq_frameId = frameId,
         rq_timestamp = now, rq_redirectChain = [] \<rparr>;
     let chained =
       (if truthy redirectResponse
        then (case findOriginalRequest (pendingRequests eh) requestId of
                Some k \<Rightarrow> push_redirect k requestId (pendingRequests eh)
              | None \<Rightarrow> pendingRequests eh)
        else pendingRequests eh);
     let entries = AList.update requestId
       \<lparr> pend_request = requestRecord, pend_response = JNull, pend_timing = JNull,
         pend_error = JNull, pend_status = Pending \<rparr> chained;
     rm \<leftarrow> handleRequest uuid created (recordingManager eh) (request_record_obj requestRecord);
     Some \<lparr> recordingManager = rm, pendingRequests = entries \<rparr>
   }"

definition handleResponseReceived :: "platform \<Rightarrow> jsval \<Rightarrow> eh_state \<Rightarrow> jsval \<Rightarrow> eh_state option" where
  "handleResponseReceived P now eh params = do {
     requestId \<leftarrow> getprop params ''requestId'';
     resp \<leftarrow> getprop params ''response'';
     (case map_of (pendingRequests eh) requestId of
        None \<Rightarrow> Some eh
      | Some pending \<Rightarrow> do {
          st \<leftarrow> getprop resp ''status'';
          stt \<leftarrow> getprop resp ''statusText'';
          h \<leftarrow> getprop resp ''headers'';
          mt \<leftarrow> getprop resp ''mimeType'';
          fc \<leftarrow> getprop resp ''fromCache'';
          fsw \<leftarrow> getprop resp ''fromServiceWorker'';
          pr \<leftarrow> getprop resp ''protocol'';
          ip \<leftarrow> getprop resp ''remoteIPAddress'';
          port \<leftarrow> getprop resp ''remotePort'';
          let responseRecord = JObj
            [(''status'', st), (''statusText'', stt), (''headers'', js_or h (JObj [])),
             (''mimeType'', js_or mt JNull), (''fromCache'', js_or fc (JBool False)),
             (''fromServiceWorker'', js_or fsw (JBool False)), (''protocol'', js_or pr JNull),
             (''remoteIPAddress'', js_or ip JNull), (''remotePort'', js_or port JNull),
             (''timestamp'', now)];
          let entries = AList.update requestId
            (pending\<lparr>pend_response := responseRecord, pend_status := ResponseReceived\<rparr>)
            (pendingRequests eh);
          rm \<leftarrow> handleResponse P (recordingManager eh) requestId responseRecord;
          Some \<lparr> recordingManager = rm, pendingRequests = entries \<rparr>
        })
   }"

text \<open>
  \<open>handleLoadingFinished\<close>. \<open>bodyData\<close> is the object the network monitor attaches:
  the fetched body, or the mark that no body is available; it is absent when the
  monitor had no entry for the request. \<open>attach_body\<close> is lines 112 to 123, the update
  of the pending entry.
\<close>

definition attach_body :: "pending_entry \<Rightarrow> jsval \<Rightarrow> jsval \<Rightarrow> pending_entry option" where
  "attach_body pending bodyData encodedDataLength =
     (if truthy (pend_response pending) \<and> truthy bodyData
      then do {
        unavailable \<leftarrow> getprop bodyData ''bodyUnavailable'';
        if truthy unavailable
        then do {
          r1 \<leftarrow> setprop (pend_response pending) ''bodyUnavailable'' (JBool True);
          err \<leftarrow> getprop bodyData ''error'';
          r2 \<leftarrow> setprop r1 ''bodyError'' err;
          Some (pending\<lparr>pend_response := r2,
            pend_error := JObj [(''bodyUnavailable'', JBool True), (''error'', err)]\<rparr>) }
        else do {
          b \<leftarrow> getprop bodyData ''body'';
          r1 \<leftarrow> setprop (pend_response pending) ''body'' b;
          e \<leftarrow> getprop bodyData ''base64Encoded'';
          r2 \<leftarrow> setprop r1 ''base64Encoded'' e;
          z \<leftarrow> getprop bodyData ''bodySize'';
          r3 \<leftarrow> setprop r2 ''bodySize'' (js_or z encodedDataLength);
          Some (pending\<lparr>pend_response := r3\<rparr>) } }
      else Some pending)"

definition handleLoadingFinished :: "platform \<Rightarrow> eh_state \<Rightarrow> jsval \<Rightarrow> eh_state option" where
  "handleLoadingFinished P eh params = do {
     requestId \<leftarrow> getprop params ''requestId'';
     encodedDataLength \<leftarrow> getprop params ''encodedDataLength'';
     bodyData \<leftarrow> getprop params ''bodyData'';
     (case map_of (pendingRequests eh) requestId of
        None \<Rightarrow> Some eh
      | Some pending \<Rightarrow> do {
          pending1 \<leftarrow> attach_body pending bodyData encodedDataLength;
          let entries = AList.update requestId (pending1\<lparr>pend_status := Completed\<rparr>)
            (pendingRequests eh);
          rm \<leftarrow> handleRequestComplete P (recordingManager eh) requestId (JObj
            [(''body'', js_or (getprop_opt bodyData ''body'') JNull),
             (''base64Encoded'', js_or (getprop_opt bodyData ''base64Encoded'') (JBool False)),
             (''bodySize'', js_or (getprop_opt bodyData ''bodySize'') encodedDataLength)]);
          Some \<lparr> recordingManager = rm, pendingRequests = entries \<rparr>
        })
   }"

definition handleLoadingFailed :: "eh_state \<Rightarrow> jsval \<Rightarrow> eh_state option" where
  "handleLoadingFailed eh params = do {
     requestId \<leftarrow> getprop params ''requestId'';
     errorText \<leftarrow> getprop params ''errorText'';
     canceled \<leftarrow> getprop params ''canceled'';
     blockedReason \<leftarrow> getprop params ''blockedReason'';
     (case map_of (pendingRequests eh) requestId of
        None \<Rightarrow> Some eh
      | Some pending \<Rightarrow>
          (let err = JObj [(''errorText'', errorText), (''canceled'', js_or canceled (JBool False)),
                 (''blockedReason'', js_or blockedReason JNull)];
               entries = AList.update requestId
                 (pending\<lparr>pend_error := err, pend_status := Failed\<rparr>) (pendingRequests eh)
           in Some \<lparr> recordingManager = handleRequestFailed (recordingManager eh) requestId err,
                     pendingRequests = entries \<rparr>))
   }"

text \<open>Every redirect chain the handler holds is empty.\<close>

definition chains_empty :: "eh_state \<Rightarrow> bool" where
  "chains_empty eh = list_all (\<lambda>(k, pending). rq_redirectChain (pend_request pending) = [])
     (pendingRequests eh)"

section \<open>A stub of the library, for the examples\<close>

text \<open>
  The examples below need one concrete behaviour of the library calls. The stub answers
  the arguments that occur in them as the runtime does and throws on every other one:
  \<open>e30=\<close> is the base64 text of \<open>{}\<close>; decoding the number 5 throws; \<open>not json\<close>
  is no JSON text; the URL constructor rejects a string without a scheme.
\<close>

definition stub_platform :: platform where
  "stub_platform =
     \<lparr> buffer_from_base64 = (\<lambda>v. if v = JStr ''e30='' then Some ''{}'' else None),
       json_parse = (\<lambda>v. if v = JStr ''{}'' then Some (JObj []) else None),
       json_stringify = (\<lambda>v. if v = JObj [] then Some (JStr ''{}'') else None),
       url_search = (\<lambda>v. if v = JStr ''https://example.com/api?x=1'' then Some ''?x=1''
                        else if v = JStr ''https://example.com/old'' then Some []
                        else if v = JStr ''https://example.com/new'' then Some []
                        else None) \<rparr>"

text \<open>
  A manager with session \<open>S1\<close> that tracks request \<open>1\<close>, as \<open>handleRequest\<close>
  leaves it; and the two initiation events of a redirect from \<open>/old\<close> to \<open>/new\<close>.
\<close>

definition example_record :: rr_record where
  "example_record =
     \<lparr> rec_id = JStr ''id-1'', rec_sessionId = JStr ''S1'', rec_requestId = JStr ''1'',
       rec_request = JObj [(''requestId'', JStr ''1''), (''url'', JStr ''https://example.com/old'')],
       rec_response = JNull, rec_timing = JNull, rec_error = JNull, rec_status = Pending,
       rec_createdAt = JStr ''2024-01-01T00:00:00.000Z'' \<rparr>"

definition example_state :: rm_state where
  "example_state =
     \<lparr> currentSessionId = JStr ''S1'', requestMap = [(JStr ''1'', example_record)],
       filters = DataFilters None None None None, saved = [] \<rparr>"

definition event_A :: jsval where
  "event_A = JObj [(''requestId'', JStr ''1''),
     (''request'', JObj [(''url'', JStr ''https://example.com/old''), (''method'', JStr ''GET'')])]"

definition event_B :: jsval where
  "event_B = JObj [(''requestId'', JStr ''2''),
     (''request'', JObj [(''url'', JStr ''https://example.com/new''), (''method'', JStr ''GET'')]),
     (''redirectResponse'',
        JObj [(''status'', JNum 302), (''url'', JStr ''https://example.com/old'')])]"

section \<open>Properties of the data filters\<close>

subsection \<open>Reading a value that is not null\<close>

lemma getprop_truthy: "truthy v \<Longrightarrow> getprop v k = Some (getprop_opt v k)"
  by (cases v) (simp_all add: getprop_opt_def)

lemma pick_truthy: "truthy v \<Longrightarrow> pick v ks = Some (map (\<lambda>k. (k, getprop_opt v k)) ks)"
  by (induction ks) (simp_all add: getprop_truthy)

lemma truthy_of_body: "getprop r ''body'' = Some b \<Longrightarrow> truthy b \<Longrightarrow> truthy r"
  by (cases r) auto

subsection \<open>The request filter\<close>

text \<open>The result of \<open>applyToRequest\<close> on a request that passes the guard, in closed form.\<close>

lemma applyToRequest_truthy:
  "truthy req \<Longrightarrow> applyToRequest f req = Some (JObj
     (map (\<lambda>k. (k, getprop_opt req k)) request_fields @
      [(''headers'', if headers f then js_or (getprop_opt req ''headers'') (JObj []) else JObj []),
       (''postData'', if payload f then js_or (getprop_opt req ''postData'') JNull else JNull)]))"
  by (simp add: applyToRequest_def pick_truthy getprop_truthy request_fields_def)

lemma applyToRequest_total: "\<exists>v. applyToRequest f req = Some v"
  by (cases "truthy req") (simp_all add: applyToRequest_truthy, simp add: applyToRequest_def)

text \<open>
  Claim C5, as the code has it. For every request object that passes the guard and every
  filter configuration, \<open>applyToRequest\<close> copies the nine structural fields whatever the
  toggles are. The result's \<open>headers\<close> is the input's when the headers toggle is on and
  the input's value is truthy (every mapping is), and an empty mapping otherwise; the
  result's \<open>postData\<close> is the input's when the payload toggle is on and the input's
  value is truthy (a non-empty string), and \<open>null\<close> otherwise. The function is a pure
  function of its argument: the source assigns to \<open>filtered\<close> only, never to a
  property of \<open>request\<close>, so a later call on the same input sees it unchanged and, with
  the headers toggle on, returns its headers.
\<close>

theorem applyToRequest_passthrough:
  assumes "truthy req" and "getprop req ''headers'' = Some h" and "getprop req ''postData'' = Some p"
  shows "\<exists>out. applyToRequest f req = Some out \<and>
     (\<forall>k \<in> set request_fields. getprop out k = getprop req k) \<and>
     getprop out ''headers'' = Some (if headers f \<and> truthy h then h else JObj []) \<and>
     getprop out ''postData'' = Some (if payload f \<and> truthy p then p else JNull)"
  using assms
  by (simp add: applyToRequest_truthy request_fields_def getprop_truthy js_or_def)

text \<open>An instance: headers on, payload off.\<close>

theorem applyToRequest_passthrough_witness:
  "\<exists>out. applyToRequest \<lparr>headers = True, payload = False, preview = True, response = True\<rparr>
       (JObj [(''requestId'', JStr ''R1''), (''url'', JStr ''https://example.com/api?x=1''),
              (''method'', JStr ''POST''), (''headers'', JObj [(''Accept'', JStr ''*/*'')]),
              (''postData'', JStr ''a=1'')]) = Some out \<and>
     getprop out ''requestId'' = Some (JStr ''R1'') \<and>
     getprop out ''headers'' = Some (JObj [(''Accept'', JStr ''*/*'')]) \<and>
     getprop out ''postData'' = Some JNull"
  using applyToRequest_passthrough
     [where f = "\<lparr>headers = True, payload = False, preview = True, response = True\<rparr>"
      and req = "JObj [(''requestId'', JStr ''R1''), (''url'', JStr ''https://example.com/api?x=1''),
              (''method'', JStr ''POST''), (''headers'', JObj [(''Accept'', JStr ''*/*'')]),
              (''postData'', JStr ''a=1'')]"
      and h = "JObj [(''Accept'', JStr ''*/*'')]" and p = "JStr ''a=1''"]
  by (simp add: request_fields_def) blast

text \<open>
  Claim C5 as the specification states it fails: with every toggle on, a request whose
  \<open>postData\<close> is the empty string comes out with \<open>postData = null\<close>
  (\<open>request.postData || null\<close>), not with its own \<open>postData\<close>.
\<close>

theorem applyToRequest_empty_postData_counterexample:
  "applyToRequest \<lparr>headers = True, payload = True, preview = True, response = True\<rparr>
     (JObj [(''requestId'', JStr ''R1''), (''url'', JStr ''https://example.com/submit''),
            (''method'', JStr ''POST''), (''postData'', JStr [])])
   = Some (JObj [(''requestId'', JStr ''R1''), (''url'', JStr ''https://example.com/submit''),
            (''method'', JStr ''POST''), (''resourceType'', JUndefined), (''referrer'', JUndefined),
            (''queryString'', JUndefined), (''initiator'', JUndefined), (''frameId'', JUndefined),
            (''timestamp'', JUndefined), (''headers'', JObj []), (''postData'', JNull)])"
  by (simp add: applyToRequest_def request_fields_def js_or_def)

text \<open>
  Claim C10. The result of \<open>applyToRequest\<close> is a projection onto a fixed list of
  fields: for every request that passes the guard and every filter configuration its
  own properties are exactly \<open>requestId\<close>, \<open>url\<close>, \<open>method\<close>, \<open>resourceType\<close>,
  \<open>referrer\<close>, \<open>queryString\<close>, \<open>initiator\<close>, \<open>frameId\<close>, \<open>timestamp\<close>,
  \<open>headers\<close> and \<open>postData\<close>; any other property of the input, \<open>redirectChain\<close>
  in particular, is absent.
\<close>

theorem applyToRequest_whitelist:
  assumes "truthy req"
  shows "\<exists>fs. applyToRequest f req = Some (JObj fs) \<and>
     map fst fs = request_fields @ [''headers'', ''postData''] \<and>
     getprop (JObj fs) ''redirectChain'' = Some JUndefined"
  using assms by (simp add: applyToRequest_truthy request_fields_def)

theorem applyToRequest_whitelist_witness:
  "\<exists>fs. applyToRequest (DataFilters None None None None)
          (JObj [(''requestId'', JStr ''1''), (''redirectChain'', JArr [JStr ''2'']), (''extra'', JNum 7)])
        = Some (JObj fs) \<and>
     map fst fs = request_fields @ [''headers'', ''postData''] \<and>
     getprop (JObj fs) ''redirectChain'' = Some JUndefined"
  using applyToRequest_whitelist
    [of "JObj [(''requestId'', JStr ''1''), (''redirectChain'', JArr [JStr ''2'']), (''extra'', JNum 7)]"
        "DataFilters None None None None"]
  by simp

subsection \<open>The preview\<close>

lemma generatePreview_total: "\<exists>v. generatePreview P resp = Some v"
  by (cases "truthy resp") (auto simp: generatePreview_def getprop_truthy split: option.splits)

lemma generatePreview_body:
  "getprop r ''body'' = Some b \<Longrightarrow> truthy b \<Longrightarrow>
   generatePreview P r = Some (case preview_try P r of None \<Rightarrow> JNull | Some v \<Rightarrow> v)"
  by (frule (1) truthy_of_body) (simp add: generatePreview_def split: option.splits)

text \<open>
  Claim C7. \<open>generatePreview\<close> returns normally for every response and every behaviour
  of the library. For a response with a body: when decoding the base64 text throws, the
  preview is \<open>null\<close>; when the test on the mime type itself throws (the mime type is
  no string), the preview is \<open>null\<close>; when the mime type contains \<open>json\<close> and the
  decoded body does not parse, the preview has type \<open>text\<close> and carries the decoded
  text; when it parses, the preview carries the parsed value and its pretty-printed
  text, with type \<open>json\<close>.
\<close>

theorem generatePreview_never_throws:
  "(\<exists>v. generatePreview P r0 = Some v) \<and>
   (getprop r ''body'' = Some b \<and> truthy b \<and> getprop r ''base64Encoded'' = Some e \<and>
    getprop r ''mimeType'' = Some m \<longrightarrow>
      (decodedBody_of P b e = None \<longrightarrow> generatePreview P r = Some JNull) \<and>
      (js_includes (js_or m (JStr [])) ''json'' = None \<longrightarrow> generatePreview P r = Some JNull) \<and>
      (\<forall>d. decodedBody_of P b e = Some d \<and> js_includes (js_or m (JStr [])) ''json'' = Some True \<longrightarrow>
         (json_parse P d = None \<longrightarrow> generatePreview P r = Some (preview_obj d JNull ''text'')) \<and>
         (\<forall>parsed pretty. json_parse P d = Some parsed \<and> json_stringify P parsed = Some pretty \<longrightarrow>
            generatePreview P r = Some (preview_obj pretty parsed ''json''))))"
proof (intro conjI impI allI; (elim conjE)?)
  show "\<exists>v. generatePreview P r0 = Some v" by (rule generatePreview_total)
next
  assume "getprop r ''body'' = Some b" "truthy b" "getprop r ''base64Encoded'' = Some e"
    "getprop r ''mimeType'' = Some m" "decodedBody_of P b e = None"
  then show "generatePreview P r = Some JNull"
    by (simp add: generatePreview_body preview_try_def Let_def)
next
  assume "getprop r ''body'' = Some b" "truthy b" "getprop r ''base64Encoded'' = Some e"
    "getprop r ''mimeType'' = Some m" "js_includes (js_or m (JStr [])) ''json'' = None"
  then show "generatePreview P r = Some JNull"
    by (cases "decodedBody_of P b e") (simp_all add: generatePreview_body preview_try_def Let_def)
next
  fix d
  assume "getprop r ''body'' = Some b" "truthy b" "getprop r ''base64Encoded'' = Some e"
    "getprop r ''mimeType'' = Some m" "decodedBody_of P b e = Some d"
    "js_includes (js_or m (JStr [])) ''json'' = Some True" "json_parse P d = None"
  then show "generatePreview P r = Some (preview_obj d JNull ''text'')"
    by (simp add: generatePreview_body preview_try_def Let_def)
next
  fix d parsed pretty
  assume "getprop r ''body'' = Some b" "truthy b" "getprop r ''base64Encoded'' = Some e"
    "getprop r ''mimeType'' = Some m" "decodedBody_of P b e = Some d"
    "js_includes (js_or m (JStr [])) ''json'' = Some True" "json_parse P d = Some parsed"
    "json_stringify P parsed = Some pretty"
  then show "generatePreview P r = Some (preview_obj pretty parsed ''json'')"
    by (simp add: generatePreview_body preview_try_def Let_def)
qed

text \<open>
  Each case at an input: a body that cannot be decoded, a mime type that is a number, a
  JSON mime type with a body that does not parse, and one with a base64 body that does.
\<close>

theorem generatePreview_never_throws_witness:
  "generatePreview stub_platform
     (JObj [(''body'', JNum 5), (''base64Encoded'', JBool True), (''mimeType'', JStr ''text/plain'')])
     = Some JNull \<and>
   generatePreview stub_platform
     (JObj [(''body'', JStr ''x''), (''mimeType'', JNum 5)]) = Some JNull \<and>
   generatePreview stub_platform
     (JObj [(''body'', JStr ''not json''), (''mimeType'', JStr ''application/json'')])
     = Some (preview_obj (JStr ''not json'') JNull ''text'') \<and>
   generatePreview stub_platform
     (JObj [(''body'', JStr ''e30=''), (''base64Encoded'', JBool True), (''mimeType'', JStr ''application/json'')])
     = Some (preview_obj (JStr ''{}'') (JObj []) ''json'')"
proof -
  have 1: "generatePreview stub_platform
     (JObj [(''body'', JNum 5), (''base64Encoded'', JBool True), (''mimeType'', JStr ''text/plain'')])
     = Some JNull"
    using generatePreview_never_throws
       [where P = stub_platform and b = "JNum 5" and e = "JBool True" and m = "JStr ''text/plain''"
        and r = "JObj [(''body'', JNum 5), (''base64Encoded'', JBool True), (''mimeType'', JStr ''text/plain'')]"]
    by (simp add: stub_platform_def decodedBody_of_def)
  have 2: "generatePreview stub_platform
     (JObj [(''body'', JStr ''x''), (''mimeType'', JNum 5)]) = Some JNull"
    using generatePreview_never_throws
       [where P = stub_platform and b = "JStr ''x''" and e = JUndefined and m = "JNum 5"
        and r = "JObj [(''body'', JStr ''x''), (''mimeType'', JNum 5)]"]
    by (simp add: js_or_def)
  have 3: "generatePreview stub_platform
     (JObj [(''body'', JStr ''not json''), (''mimeType'', JStr ''application/json'')])
     = Some (preview_obj (JStr ''not json'') JNull ''text'')"
    using generatePreview_never_throws
       [where P = stub_platform and b = "JStr ''not json''" and e = JUndefined
        and m = "JStr ''application/json''"
        and r = "JObj [(''body'', JStr ''not json''), (''mimeType'', JStr ''application/json'')]"]
    by (simp add: stub_platform_def decodedBody_of_def js_or_def)
  have 4: "generatePreview stub_platform
     (JObj [(''body'', JStr ''e30=''), (''base64Encoded'', JBool True), (''mimeType'', JStr ''application/json'')])
     = Some (preview_obj (JStr ''{}'') (JObj []) ''json'')"
    using generatePreview_never_throws
       [where P = stub_platform and b = "JStr ''e30=''" and e = "JBool True"
        and m = "JStr ''application/json''"
        and r = "JObj [(''body'', JStr ''e30=''), (''base64Encoded'', JBool True), (''mimeType'', JStr ''application/json'')]"]
    by (simp add: stub_platform_def decodedBody_of_def js_or_def)
  from 1 2 3 4 show ?thesis by blast
qed

subsection \<open>The response filter\<close>

lemma applyToResponse_truthy:
  "truthy resp \<Longrightarrow> generatePreview P resp = Some pv \<Longrightarrow> applyToResponse P f resp = Some (JObj
     (map (\<lambda>k. (k, getprop_opt resp k)) response_fields @
      [(''headers'', if headers f then js_or (getprop_opt resp ''headers'') (JObj []) else JObj []),
       (''body'', if response f then js_or (getprop_opt resp ''body'') JNull else JNull),
       (''base64Encoded'',
          if response f then js_or (getprop_opt resp ''base64Encoded'') (JBool False) else JBool False),
       (''bodySize'', if response f then js_or (getprop_opt resp ''bodySize'') (JNum 0) else JNum 0),
       (''preview'', if preview f then pv else JNull)]))"
  by (simp add: applyToResponse_def pick_truthy getprop_truthy response_fields_def)

lemma applyToResponse_object: "truthy resp \<Longrightarrow> \<exists>fs. applyToResponse P f resp = Some (JObj fs)"
  using generatePreview_total [of P resp] by (auto simp: applyToResponse_truthy)

lemma applyToResponse_total: "\<exists>v. applyToResponse P f resp = Some v"
proof (cases "truthy resp")
  case True
  then show ?thesis using applyToResponse_object by blast
next
  case False
  then show ?thesis by (simp add: applyToResponse_def)
qed

text \<open>
  Claim C9. \<open>applyToRequest\<close> and \<open>applyToResponse\<close> return \<open>null\<close>, and do not
  throw, when the argument is \<open>null\<close> or \<open>undefined\<close>.
\<close>

theorem applyTo_null_argument:
  "applyToRequest f JNull = Some JNull \<and> applyToRequest f JUndefined = Some JNull \<and>
   applyToResponse P f JNull = Some JNull \<and> applyToResponse P f JUndefined = Some JNull"
  by (simp add: applyToRequest_def applyToResponse_def)

text \<open>
  Claim C6. With the raw-body toggle off and the preview toggle on, a response whose
  body is \<open><html></html>\<close>, whose mime type is \<open>text/html\<close> and which is not
  base64-encoded is filtered to \<open>body = null\<close> with a preview whose \<open>formatted\<close> is
  \<open><html></html>\<close> and whose \<open>type\<close> is \<open>html\<close>: the preview is made from the
  unfiltered response.
\<close>

theorem applyToResponse_preview_without_body:
  assumes "\<not> response f" and "preview f"
    and "getprop resp ''body'' = Some (JStr ''<html></html>'')"
    and "getprop resp ''mimeType'' = Some (JStr ''text/html'')"
    and "getprop resp ''base64Encoded'' = Some e" and "\<not> truthy e"
  shows "\<exists>out pv. applyToResponse P f resp = Some out \<and> getprop out ''body'' = Some JNull \<and>
     getprop out ''preview'' = Some pv \<and>
     getprop pv ''formatted'' = Some (JStr ''<html></html>'') \<and>
     getprop pv ''type'' = Some (JStr ''html'')"
proof -
  have t: "truthy resp" using assms(3) by (cases resp) auto
  have pv: "generatePreview P resp = Some (preview_obj (JStr ''<html></html>'') JNull ''html'')"
    using assms
    by (simp add: generatePreview_body preview_try_def decodedBody_of_def js_or_def Let_def)
  show ?thesis
    using assms(1,2)
    by (simp add: applyToResponse_truthy [OF t pv] response_fields_def preview_obj_def)
qed

text \<open>The scenario itself: filters \<open>{response: false, preview: true}\<close>.\<close>

theorem applyToResponse_preview_without_body_witness:
  "\<exists>out pv. applyToResponse stub_platform (DataFilters None None (Some True) (Some False))
       (JObj [(''body'', JStr ''<html></html>''), (''mimeType'', JStr ''text/html'')]) = Some out \<and>
     getprop out ''body'' = Some JNull \<and>
     getprop out ''preview'' = Some pv \<and>
     getprop pv ''formatted'' = Some (JStr ''<html></html>'') \<and>
     getprop pv ''type'' = Some (JStr ''html'')"
  by (rule applyToResponse_preview_without_body [where e = JUndefined])
     (simp_all add: DataFilters_def)

section \<open>Properties of the recording manager\<close>

subsection \<open>What each handler does to a tracked request\<close>

lemma handleRequest_tracked:
  assumes "truthy (currentSessionId s)" and "truthy req" and "getprop req ''requestId'' = Some rid"
  shows "\<exists>fs. handleRequest uuid now s req = Some (s\<lparr>requestMap := AList.update rid
          \<lparr> rec_id = uuid, rec_sessionId = currentSessionId s, rec_requestId = rid,
            rec_request = JObj fs, rec_response = JNull, rec_timing = JNull,
            rec_error = JNull, rec_status = Pending, rec_createdAt = now \<rparr>
          (requestMap s)\<rparr>)"
proof -
  obtain fs where "applyToRequest (filters s) req = Some (JObj fs)"
    using applyToRequest_truthy [OF assms(2)] by blast
  with assms have "handleRequest uuid now s req = Some (s\<lparr>requestMap := AList.update rid
          \<lparr> rec_id = uuid, rec_sessionId = currentSessionId s, rec_requestId = rid,
            rec_request = JObj fs, rec_response = JNull, rec_timing = JNull,
            rec_error = JNull, rec_status = Pending, rec_createdAt = now \<rparr>
          (requestMap s)\<rparr>)"
    by (simp add: handleRequest_def)
  then show ?thesis by blast
qed

lemma handleRequest_object_total: "\<exists>s'. handleRequest uuid now s (JObj fs) = Some s'"
  by (simp add: handleRequest_def applyToRequest_truthy)

lemma handleResponse_tracked:
  assumes "map_of (requestMap s) rid = Some r" and "truthy resp"
  shows "\<exists>fs. handleResponse P s rid resp = Some (s\<lparr>requestMap := AList.update rid
            (r\<lparr>rec_response := JObj fs, rec_status := ResponseReceived\<rparr>) (requestMap s)\<rparr>)"
proof -
  obtain fs where "applyToResponse P (filters s) resp = Some (JObj fs)"
    using applyToResponse_object [OF assms(2)] by blast
  with assms(1) have "handleResponse P s rid resp = Some (s\<lparr>requestMap := AList.update rid
            (r\<lparr>rec_response := JObj fs, rec_status := ResponseReceived\<rparr>) (requestMap s)\<rparr>)"
    by (simp add: handleResponse_def)
  then show ?thesis by blast
qed

lemma handleRequestComplete_tracked:
  assumes "map_of (requestMap s) rid = Some r" and "rec_response r = JObj fs"
    and "getprop bd ''body'' = Some b"
  shows "\<exists>fs'. handleRequestComplete P s rid bd = Some (s\<lparr>requestMap := AList.update rid
            (r\<lparr>rec_response := JObj fs', rec_status := Completed\<rparr>) (requestMap s),
            saved := saved s @ [r\<lparr>rec_response := JObj fs', rec_status := Completed\<rparr>]\<rparr>)"
proof -
  have nn: "getprop bd k \<noteq> None" for k using assms(3) by (cases bd) auto
  obtain e z where ez: "getprop bd ''base64Encoded'' = Some e" "getprop bd ''bodySize'' = Some z"
    using nn by blast
  obtain fs' where "applyToResponse P (filters s)
      (JObj (AList.update ''bodySize'' z (AList.update ''base64Encoded'' e (AList.update ''body'' b fs))))
      = Some (JObj fs')"
    using applyToResponse_object
      [of "JObj (AList.update ''bodySize'' z (AList.update ''base64Encoded'' e (AList.update ''body'' b fs)))"]
    by auto
  with assms ez have "handleRequestComplete P s rid bd = Some (s\<lparr>requestMap := AList.update rid
            (r\<lparr>rec_response := JObj fs', rec_status := Completed\<rparr>) (requestMap s),
            saved := saved s @ [r\<lparr>rec_response := JObj fs', rec_status := Completed\<rparr>]\<rparr>)"
    by (simp add: handleRequestComplete_def merge_body_def Let_def)
  then show ?thesis by blast
qed

subsection \<open>Requests the manager does not track\<close>

lemma untracked_noop:
  assumes "map_of (requestMap s) requestId = None"
  shows "handleResponse P s requestId resp = Some s \<and>
         handleRequestComplete P s requestId bodyData = Some s"
  using assms by (simp add: handleResponse_def handleRequestComplete_def)

text \<open>Only a \<open>handleRequest\<close> that carries the id makes the manager track it.\<close>

lemma untracked_step:
  assumes "map_of (requestMap s) rid = None" and "\<not> requests rid c" and "rm_step P s c = Some s'"
  shows "map_of (requestMap s') rid = None"
proof (cases c)
  case (HandleRequest uuid now req)
  with assms show ?thesis
    by (auto simp: handleRequest_def update_conv' bind_eq_Some_conv split: if_splits)
next
  case (HandleResponse k resp)
  with assms show ?thesis
    by (cases "k = rid")
       (auto simp: handleResponse_def update_conv' bind_eq_Some_conv split: option.splits)
next
  case (HandleRequestComplete k bd)
  with assms show ?thesis
    by (cases "k = rid")
       (auto simp: handleRequestComplete_def update_conv' bind_eq_Some_conv Let_def
          split: option.splits)
next
  case (HandleRequestFailed k err)
  with assms show ?thesis
    by (cases "k = rid")
       (auto simp: handleRequestFailed_def update_conv' Let_def split: option.splits)
qed (use assms in \<open>auto simp: setSession_def setFilters_def clear_def Let_def
       split: option.splits prod.splits\<close>)

lemma untracked_calls:
  "map_of (requestMap s) rid = None \<Longrightarrow> \<forall>c \<in> set cs. \<not> requests rid c \<Longrightarrow>
   map_of (requestMap (rm_calls P s cs)) rid = None"
proof (induction cs arbitrary: s)
  case Nil
  then show ?case by simp
next
  case (Cons c cs)
  show ?case
  proof (cases "rm_step P s c")
    case None
    with Cons show ?thesis by simp
  next
    case (Some s')
    with Cons.prems have "map_of (requestMap s') rid = None"
      using untracked_step [of s rid c P s'] by simp
    with Cons Some show ?thesis by simp
  qed
qed

text \<open>
  Claim C4. \<open>handleResponse\<close> and \<open>handleRequestComplete\<close> for a request id that the
  manager does not track return normally and leave the manager as it was: no record is
  made, the request map is the same, nothing is handed to storage. And a manager that
  has processed no \<open>handleRequest\<close> for an id does not track it, whatever else it has
  been called with.
\<close>

theorem untracked_request_is_noop:
  "(map_of (requestMap s) requestId = None \<longrightarrow>
      handleResponse P s requestId resp = Some s \<and>
      handleRequestComplete P s requestId bodyData = Some s) \<and>
   ((\<forall>c \<in> set cs. \<not> requests requestId c) \<longrightarrow>
      map_of (requestMap (rm_calls P RecordingManager cs)) requestId = None)"
  using untracked_noop [of s requestId P resp bodyData]
    untracked_calls [of RecordingManager requestId cs P]
  by (simp add: RecordingManager_def)

text \<open>
  A manager that has seen a session and a request \<open>R1\<close>, called for \<open>R9\<close>; the body
  data is even \<open>null\<close>.
\<close>

theorem untracked_request_is_noop_witness:
  "handleResponse stub_platform
     (rm_calls stub_platform RecordingManager
        [SetSession (JStr ''S1'') None,
         HandleRequest (JStr ''id-1'') (JStr ''t'') (JObj [(''requestId'', JStr ''R1'')])])
     (JStr ''R9'') (JObj [(''status'', JNum 200)])
   = Some (rm_calls stub_platform RecordingManager
        [SetSession (JStr ''S1'') None,
         HandleRequest (JStr ''id-1'') (JStr ''t'') (JObj [(''requestId'', JStr ''R1'')])]) \<and>
   handleRequestComplete stub_platform
     (rm_calls stub_platform RecordingManager
        [SetSession (JStr ''S1'') None,
         HandleRequest (JStr ''id-1'') (JStr ''t'') (JObj [(''requestId'', JStr ''R1'')])])
     (JStr ''R9'') JNull
   = Some (rm_calls stub_platform RecordingManager
        [SetSession (JStr ''S1'') None,
         HandleRequest (JStr ''id-1'') (JStr ''t'') (JObj [(''requestId'', JStr ''R1'')])])"
  using untracked_request_is_noop [where P = stub_platform and requestId = "JStr ''R9''"
      and cs = "[SetSession (JStr ''S1'') None,
         HandleRequest (JStr ''id-1'') (JStr ''t'') (JObj [(''requestId'', JStr ''R1'')])]"
      and s = "rm_calls stub_platform RecordingManager
        [SetSession (JStr ''S1'') None,
         HandleRequest (JStr ''id-1'') (JStr ''t'') (JObj [(''requestId'', JStr ''R1'')])]"]
  by simp

subsection \<open>One request in protocol order\<close>

text \<open>
  Claim C2. With a session active, \<open>handleRequest\<close> for a request object, then
  \<open>handleResponse\<close> with a response object, then \<open>handleRequestComplete\<close> with body
  data, all for one request id, return normally; the first two hand nothing to storage
  and the third hands over exactly one record. That record carries the request id, has
  status \<open>completed\<close>, and neither its request nor its response is \<open>null\<close>.
\<close>

theorem protocol_order_completes:
  assumes "truthy (currentSessionId s)" and "truthy req" and "getprop req ''requestId'' = Some rid"
    and "truthy resp" and "getprop bodyData ''body'' = Some b"
  shows "\<exists>s1 s2 s3 r. handleRequest uuid now s req = Some s1 \<and>
      handleResponse P s1 rid resp = Some s2 \<and>
      handleRequestComplete P s2 rid bodyData = Some s3 \<and>
      saved s1 = saved s \<and> saved s2 = saved s \<and> saved s3 = saved s @ [r] \<and>
      rec_requestId r = rid \<and> rec_status r = Completed \<and>
      rec_request r \<noteq> JNull \<and> rec_response r \<noteq> JNull"
proof -
  obtain fq where s1: "handleRequest uuid now s req = Some (s\<lparr>requestMap := AList.update rid
          \<lparr> rec_id = uuid, rec_sessionId = currentSessionId s, rec_requestId = rid,
            rec_request = JObj fq, rec_response = JNull, rec_timing = JNull,
            rec_error = JNull, rec_status = Pending, rec_createdAt = now \<rparr>
          (requestMap s)\<rparr>)" (is "_ = Some ?s1")
    using handleRequest_tracked [OF assms(1,2,3)] by blast
  let ?r1 = "\<lparr> rec_id = uuid, rec_sessionId = currentSessionId s, rec_requestId = rid,
            rec_request = JObj fq, rec_response = JNull, rec_timing = JNull,
            rec_error = JNull, rec_status = Pending, rec_createdAt = now \<rparr>"
  have m1: "map_of (requestMap ?s1) rid = Some ?r1" by (simp add: update_conv')
  obtain fr where s2: "handleResponse P ?s1 rid resp = Some (?s1\<lparr>requestMap := AList.update rid
            (?r1\<lparr>rec_response := JObj fr, rec_status := ResponseReceived\<rparr>) (requestMap ?s1)\<rparr>)"
    (is "_ = Some ?s2")
    using handleResponse_tracked [OF m1 assms(4)] by blast
  let ?r2 = "?r1\<lparr>rec_response := JObj fr, rec_status := ResponseReceived\<rparr>"
  have m2: "map_of (requestMap ?s2) rid = Some ?r2" by (simp add: update_conv')
  have rr: "rec_response ?r2 = JObj fr" by simp
  obtain fc where s3: "handleRequestComplete P ?s2 rid bodyData = Some (?s2\<lparr>requestMap :=
            AList.update rid (?r2\<lparr>rec_response := JObj fc, rec_status := Completed\<rparr>) (requestMap ?s2),
            saved := saved ?s2 @ [?r2\<lparr>rec_response := JObj fc, rec_status := Completed\<rparr>]\<rparr>)"
    using handleRequestComplete_tracked [OF m2 rr assms(5)] by blast
  show ?thesis
    apply (rule exI [of _ ?s1], rule exI [of _ ?s2])
    apply (simp only: s1 s2 s3)
    apply simp
    done
qed

text \<open>Request \<open>R1\<close> of session \<open>S1\<close>, answered with status 200 and the body \<open>{}\<close>.\<close>

theorem protocol_order_completes_witness:
  "\<exists>s1 s2 s3 r.
      handleRequest (JStr ''id-1'') (JStr ''2024-01-01T00:00:00.000Z'')
        (setSession RecordingManager (JStr ''S1'') None)
        (JObj [(''requestId'', JStr ''R1''), (''url'', JStr ''https://example.com/api?x=1''),
               (''method'', JStr ''GET'')]) = Some s1 \<and>
      handleResponse stub_platform s1 (JStr ''R1'')
        (JObj [(''status'', JNum 200), (''mimeType'', JStr ''application/json'')]) = Some s2 \<and>
      handleRequestComplete stub_platform s2 (JStr ''R1'')
        (JObj [(''body'', JStr ''{}''), (''base64Encoded'', JBool False), (''bodySize'', JNum 2)])
        = Some s3 \<and>
      saved s1 = saved (setSession RecordingManager (JStr ''S1'') None) \<and>
      saved s2 = saved (setSession RecordingManager (JStr ''S1'') None) \<and>
      saved s3 = saved (setSession RecordingManager (JStr ''S1'') None) @ [r] \<and>
      rec_requestId r = JStr ''R1'' \<and> rec_status r = Completed \<and>
      rec_request r \<noteq> JNull \<and> rec_response r \<noteq> JNull"
  by (rule protocol_order_completes) (simp_all add: setSession_def RecordingManager_def)

subsection \<open>Handing records to storage\<close>

text \<open>
  Along any sequence of calls, storage receives one record for each terminal call on a
  tracked id that returns, and nothing else.
\<close>

lemma step_saved:
  "length (saved (case rm_step P s c of Some s' \<Rightarrow> s' | None \<Rightarrow> s))
     = length (saved s) + (if hands_over P s c then 1 else 0)"
proof (cases c)
  case (HandleRequest uuid now req)
  then show ?thesis
    by (auto simp: handleRequest_def bind_eq_Some_conv split: option.splits if_splits)
next
  case (HandleResponse k resp)
  then show ?thesis
    by (auto simp: handleResponse_def bind_eq_Some_conv split: option.splits)
next
  case (HandleRequestComplete k bd)
  then show ?thesis
    by (auto simp: handleRequestComplete_def bind_eq_Some_conv Let_def split: option.splits)
next
  case (HandleRequestFailed k err)
  then show ?thesis
    by (auto simp: handleRequestFailed_def Let_def split: option.splits)
qed (auto simp: setSession_def setFilters_def clear_def Let_def split: option.splits prod.splits)

lemma saved_counts_terminal_calls:
  "length (saved (rm_calls P s cs)) = length (saved s) + handoffs P s cs"
  by (induction cs arbitrary: s) (simp_all add: step_saved del: hands_over.simps)

text \<open>A request that is initiated and then fails: one record, with status \<open>failed\<close>.\<close>

lemma request_then_failed:
  assumes "truthy (currentSessionId s)" and "truthy req" and "getprop req ''requestId'' = Some rid"
  shows "\<exists>s1 r. handleRequest uuid now s req = Some s1 \<and> saved s1 = saved s \<and>
     saved (handleRequestFailed s1 rid err) = saved s @ [r] \<and>
     rec_requestId r = rid \<and> rec_status r = Failed \<and> rec_error r = err \<and> rec_response r = JNull"
proof -
  obtain fs where "handleRequest uuid now s req = Some (s\<lparr>requestMap := AList.update rid
          \<lparr> rec_id = uuid, rec_sessionId = currentSessionId s, rec_requestId = rid,
            rec_request = JObj fs, rec_response = JNull, rec_timing = JNull,
            rec_error = JNull, rec_status = Pending, rec_createdAt = now \<rparr>
          (requestMap s)\<rparr>)"
    using handleRequest_tracked [OF assms] by blast
  then show ?thesis
    by (simp add: handleRequestFailed_def update_conv' Let_def)
qed

text \<open>
  Claim C1, as the code has it. For a tracked request id every terminal call hands the
  record to storage once: \<open>handleRequestFailed\<close> appends it with status \<open>failed\<close>, a
  \<open>handleRequestComplete\<close> that returns appends it with status \<open>completed\<close>.
  \<open>handleRequest\<close> and \<open>handleResponse\<close> hand nothing over. After a handoff the
  entry is still in the request map, and no handler looks at its status: a request id
  that gets one terminal call is stored once, and a further terminal call for it stores
  it again.
\<close>

theorem terminal_call_hands_over:
  assumes "map_of (requestMap s) rid = Some r"
  shows "saved (handleRequestFailed s rid err) = saved s @ [r\<lparr>rec_error := err, rec_status := Failed\<rparr>] \<and>
    map_of (requestMap (handleRequestFailed s rid err)) rid
      = Some (r\<lparr>rec_error := err, rec_status := Failed\<rparr>) \<and>
    (\<forall>s'. handleRequestComplete P s rid bd = Some s' \<longrightarrow>
       (\<exists>resp. saved s' = saved s @ [r\<lparr>rec_response := resp, rec_status := Completed\<rparr>] \<and>
          map_of (requestMap s') rid = Some (r\<lparr>rec_response := resp, rec_status := Completed\<rparr>))) \<and>
    (\<forall>s'. handleRequest uuid now s req = Some s' \<longrightarrow> saved s' = saved s) \<and>
    (\<forall>s'. handleResponse P s x resp = Some s' \<longrightarrow> saved s' = saved s)"
proof (intro conjI allI impI)
  show "saved (handleRequestFailed s rid err) = saved s @ [r\<lparr>rec_error := err, rec_status := Failed\<rparr>]"
    using assms by (simp add: handleRequestFailed_def Let_def)
  show "map_of (requestMap (handleRequestFailed s rid err)) rid
      = Some (r\<lparr>rec_error := err, rec_status := Failed\<rparr>)"
    using assms by (simp add: handleRequestFailed_def Let_def update_conv')
next
  fix s' assume "handleRequestComplete P s rid bd = Some s'"
  with assms show "\<exists>resp. saved s' = saved s @ [r\<lparr>rec_response := resp, rec_status := Completed\<rparr>] \<and>
          map_of (requestMap s') rid = Some (r\<lparr>rec_response := resp, rec_status := Completed\<rparr>)"
    by (auto simp: handleRequestComplete_def Let_def update_conv' bind_eq_Some_conv)
next
  fix s' assume "handleRequest uuid now s req = Some s'"
  then show "saved s' = saved s"
    by (auto simp: handleRequest_def split: bind_splits if_splits)
next
  fix s' assume "handleResponse P s x resp = Some s'"
  then show "saved s' = saved s"
    by (auto simp: handleResponse_def split: bind_splits option.splits)
qed

text \<open>The manager that tracks request \<open>1\<close>: one failure, or one completion.\<close>

theorem terminal_call_hands_over_witness:
  "saved (handleRequestFailed example_state (JStr ''1'') (JObj [(''errorText'', JStr ''net::ERR_FAILED'')]))
     = [example_record\<lparr>rec_error := JObj [(''errorText'', JStr ''net::ERR_FAILED'')],
                       rec_status := Failed\<rparr>] \<and>
   (\<exists>s' resp. handleRequestComplete stub_platform example_state (JStr ''1'') JNull = Some s' \<and>
      saved s' = [example_record\<lparr>rec_response := resp, rec_status := Completed\<rparr>])"
proof -
  have t: "map_of (requestMap example_state) (JStr ''1'') = Some example_record"
    by (simp add: example_state_def)
  obtain s' where c: "handleRequestComplete stub_platform example_state (JStr ''1'') JNull = Some s'"
    by (simp add: handleRequestComplete_def merge_body_def example_state_def example_record_def
          Let_def)
  from terminal_call_hands_over
      [OF t, where err = "JObj [(''errorText'', JStr ''net::ERR_FAILED'')]"
       and P = stub_platform and bd = JNull and uuid = JNull and now = JNull and req = JNull
       and x = JNull and resp = JNull] c
  show ?thesis by (auto simp: example_state_def)
qed

text \<open>
  Claim C1 as the specification states it fails. In session \<open>S1\<close> request \<open>1\<close> is
  initiated, fails, and then completes: storage is handed the record of request \<open>1\<close>
  twice, first with status \<open>failed\<close> and then with status \<open>completed\<close>.
\<close>

theorem failed_then_complete_counterexample:
  "do { s1 \<leftarrow> handleRequest (JStr ''id-1'') (JStr ''t0'')
               (setSession RecordingManager (JStr ''S1'') None)
               (JObj [(''requestId'', JStr ''1''), (''url'', JStr ''https://example.com/old'')]);
        s3 \<leftarrow> handleRequestComplete stub_platform
               (handleRequestFailed s1 (JStr ''1'') (JObj [(''errorText'', JStr ''net::ERR_FAILED'')]))
               (JStr ''1'')
               (JObj [(''body'', JNull), (''base64Encoded'', JBool False), (''bodySize'', JNum 0)]);
        Some (map (\<lambda>r. (rec_requestId r, rec_status r)) (saved s3)) }
   = Some [(JStr ''1'', Failed), (JStr ''1'', Completed)]"
  by (simp add: handleRequest_def setSession_def RecordingManager_def DataFilters_def
      applyToRequest_def request_fields_def js_or_def handleRequestFailed_def
      handleRequestComplete_def merge_body_def Let_def)

section \<open>Properties of the event handler\<close>

text \<open>
  Claim C8. For an initiation event whose \<open>request.url\<close> is a string, the query string
  is derived without an exception. When the URL constructor accepts the string, the
  query string is the URL's query component without its leading \<open>?\<close> (\<open>null\<close> when
  the component is empty); when it rejects the string, the query string is what follows
  the first \<open>?\<close> of the string (\<open>null\<close> when there is none). For
  \<open>bad-url-no-scheme?q=5\<close>, which the constructor rejects, it is \<open>q=5\<close>.
\<close>

theorem queryString_of_url:
  "(getprop request ''url'' = Some (JStr u) \<longrightarrow>
      (\<exists>q. queryString_of P request = Some q) \<and>
      (\<forall>s. url_search P (JStr u) = Some s \<longrightarrow>
         queryString_of P request = Some (if s = [] then JNull else JStr (drop 1 s))) \<and>
      (url_search P (JStr u) = None \<longrightarrow>
         queryString_of P request =
           Some (case indexOf u ''?'' of None \<Rightarrow> JNull | Some i \<Rightarrow> JStr (drop (i + 1) u)))) \<and>
   (getprop request ''url'' = Some (JStr ''bad-url-no-scheme?q=5'') \<and>
    url_search P (JStr ''bad-url-no-scheme?q=5'') = None \<longrightarrow>
      queryString_of P request = Some (JStr ''q=5''))"
  by (auto simp: queryString_of_def split: option.splits)

theorem queryString_of_url_witness:
  "queryString_of stub_platform
     (JObj [(''url'', JStr ''https://example.com/api?x=1''), (''method'', JStr ''GET'')])
     = Some (JStr ''x=1'') \<and>
   queryString_of stub_platform (JObj [(''url'', JStr ''bad-url-no-scheme?q=5'')])
     = Some (JStr ''q=5'')"
  using queryString_of_url [where P = stub_platform and u = "''https://example.com/api?x=1''"
      and request = "JObj [(''url'', JStr ''https://example.com/api?x=1''), (''method'', JStr ''GET'')]"]
    queryString_of_url [where P = stub_platform and u = "''bad-url-no-scheme?q=5''"
      and request = "JObj [(''url'', JStr ''bad-url-no-scheme?q=5'')]"]
  by (simp add: stub_platform_def)

subsection \<open>The query string reaches the pending entry\<close>

lemma getprop_defined: "getprop v k = Some x \<Longrightarrow> \<exists>y. getprop v k' = Some y"
  by (cases v) auto

lemma queryString_of_string:
  "getprop request ''url'' = Some (JStr u) \<Longrightarrow> \<exists>q. queryString_of P request = Some q"
  by (auto simp: queryString_of_def split: option.splits)

text \<open>
  For an initiation event whose \<open>request.url\<close> is a string, \<open>handleRequestWillBeSent\<close>
  returns normally and the entry it stores carries the derived query string.
\<close>

lemma requestWillBeSent_queryString:
  assumes rq: "getprop ev ''request'' = Some request"
    and url: "getprop request ''url'' = Some (JStr u)"
    and rid: "getprop ev ''requestId'' = Some rid"
  shows "\<exists>eh' p q. handleRequestWillBeSent P now uuid created eh ev = Some eh' \<and>
     map_of (pendingRequests eh') rid = Some p \<and>
     queryString_of P request = Some q \<and> rq_queryString (pend_request p) = q"
proof -
  obtain q where q: "queryString_of P request = Some q"
    using queryString_of_string [OF url] by blast
  obtain rr ty fid ini where ev: "getprop ev ''redirectResponse'' = Some rr"
    "getprop ev ''type'' = Some ty" "getprop ev ''frameId'' = Some fid"
    "getprop ev ''initiator'' = Some ini"
    using getprop_defined [OF rq] by metis
  obtain m h pd rf where req: "getprop request ''method'' = Some m"
    "getprop request ''headers'' = Some h" "getprop request ''postData'' = Some pd"
    "getprop request ''referrer'' = Some rf"
    using getprop_defined [OF url] by metis
  let ?rec = "\<lparr> rq_requestId = rid, rq_url = JStr u, rq_method = m,
         rq_headers = js_or h (JObj []), rq_postData = js_or pd JNull,
         rq_queryString = q, rq_referrer = js_or rf JNull,
         rq_initiator = js_or ini JNull, rq_resourceType = ty, rq_frameId = fid,
         rq_timestamp = now, rq_redirectChain = [] \<rparr>"
  obtain rm where rm:
    "handleRequest uuid created (recordingManager eh) (request_record_obj ?rec) = Some rm"
    unfolding request_record_obj_def using handleRequest_object_total by blast
  show ?thesis
    using rq url rid q ev req rm
    by (simp add: handleRequestWillBeSent_def Let_def update_conv')
qed

subsection \<open>One request in protocol order, through the event handler\<close>

lemma requestWillBeSent_tracks:
  assumes act: "truthy (currentSessionId (recordingManager eh))"
    and run: "handleRequestWillBeSent P now uuid created eh ev = Some eh'"
    and rid: "getprop ev ''requestId'' = Some rid"
  shows "\<exists>r. map_of (requestMap (recordingManager eh')) rid = Some r \<and> rec_requestId r = rid \<and>
           rec_request r \<noteq> JNull \<and> saved (recordingManager eh') = saved (recordingManager eh) \<and>
           map_of (pendingRequests eh') rid \<noteq> None"
  using assms
  by (auto simp: handleRequestWillBeSent_def bind_eq_Some_conv Let_def handleRequest_def
        request_record_obj_def applyToRequest_truthy update_conv')

lemma responseReceived_tracks:
  assumes run: "handleResponseReceived P now eh ev = Some eh'"
    and rid: "getprop ev ''requestId'' = Some rid"
    and rec: "map_of (requestMap (recordingManager eh)) rid = Some r"
    and pen: "map_of (pendingRequests eh) rid \<noteq> None"
  shows "\<exists>fs. map_of (requestMap (recordingManager eh')) rid =
             Some (r\<lparr>rec_response := JObj fs, rec_status := ResponseReceived\<rparr>) \<and>
           saved (recordingManager eh') = saved (recordingManager eh) \<and>
           map_of (pendingRequests eh') rid \<noteq> None"
proof -
  from pen obtain p where p: "map_of (pendingRequests eh) rid = Some p" by blast
  from run rid p obtain obj where
    h: "handleResponse P (recordingManager eh) rid (JObj obj) = Some (recordingManager eh')"
    and q: "map_of (pendingRequests eh') rid \<noteq> None"
    by (auto simp: handleResponseReceived_def bind_eq_Some_conv Let_def update_conv')
  obtain fs where "handleResponse P (recordingManager eh) rid (JObj obj) =
      Some ((recordingManager eh)\<lparr>requestMap := AList.update rid
            (r\<lparr>rec_response := JObj fs, rec_status := ResponseReceived\<rparr>)
            (requestMap (recordingManager eh))\<rparr>)"
    using handleResponse_tracked [OF rec, of "JObj obj" P] by auto
  with h have "recordingManager eh' = (recordingManager eh)\<lparr>requestMap := AList.update rid
            (r\<lparr>rec_response := JObj fs, rec_status := ResponseReceived\<rparr>)
            (requestMap (recordingManager eh))\<rparr>" by simp
  with q show ?thesis by (auto simp: update_conv')
qed

lemma loadingFinished_saves:
  assumes run: "handleLoadingFinished P eh ev = Some eh'"
    and rid: "getprop ev ''requestId'' = Some rid"
    and rec: "map_of (requestMap (recordingManager eh)) rid = Some r"
    and obj: "rec_response r = JObj fs"
    and pen: "map_of (pendingRequests eh) rid \<noteq> None"
  shows "\<exists>fs'. saved (recordingManager eh') =
           saved (recordingManager eh) @ [r\<lparr>rec_response := JObj fs', rec_status := Completed\<rparr>]"
proof -
  from pen obtain p where p: "map_of (pendingRequests eh) rid = Some p" by blast
  from run rid p obtain bd where
    h: "handleRequestComplete P (recordingManager eh) rid (JObj bd) = Some (recordingManager eh')"
    by (auto simp: handleLoadingFinished_def bind_eq_Some_conv Let_def)
  have "getprop (JObj bd) ''body'' \<noteq> None" by simp
  then obtain b where "getprop (JObj bd) ''body'' = Some b" by blast
  from handleRequestComplete_tracked [OF rec obj this, of P] h
  show ?thesis by auto
qed

text \<open>
  The three events of one request, each handled without an exception while a session
  is active: the recording manager hands exactly one record to storage, completed and
  with both snapshots.
\<close>

lemma pipeline_completes:
  assumes act: "truthy (currentSessionId (recordingManager eh))"
    and e1: "handleRequestWillBeSent P now uuid created eh ev1 = Some eh1"
    and e2: "handleResponseReceived P now' eh1 ev2 = Some eh2"
    and e3: "handleLoadingFinished P eh2 ev3 = Some eh3"
    and ids: "getprop ev1 ''requestId'' = Some rid" "getprop ev2 ''requestId'' = Some rid"
      "getprop ev3 ''requestId'' = Some rid"
  shows "\<exists>r. saved (recordingManager eh3) = saved (recordingManager eh) @ [r] \<and>
     rec_requestId r = rid \<and> rec_status r = Completed \<and>
     rec_request r \<noteq> JNull \<and> rec_response r \<noteq> JNull"
proof -
  from requestWillBeSent_tracks [OF act e1 ids(1)] obtain r1 where
    r1: "map_of (requestMap (recordingManager eh1)) rid = Some r1" "rec_requestId r1 = rid"
      "rec_request r1 \<noteq> JNull" "saved (recordingManager eh1) = saved (recordingManager eh)"
      "map_of (pendingRequests eh1) rid \<noteq> None" by blast
  from responseReceived_tracks [OF e2 ids(2) r1(1) r1(5)] obtain fs where
    r2: "map_of (requestMap (recordingManager eh2)) rid =
           Some (r1\<lparr>rec_response := JObj fs, rec_status := ResponseReceived\<rparr>)"
      "saved (recordingManager eh2) = saved (recordingManager eh1)"
      "map_of (pendingRequests eh2) rid \<noteq> None" by blast
  from loadingFinished_saves [OF e3 ids(3) r2(1) _ r2(3), of fs] obtain fs' where
    "saved (recordingManager eh3) = saved (recordingManager eh2) @
       [r1\<lparr>rec_response := JObj fs', rec_status := Completed\<rparr>]" by auto
  with r1 r2 show ?thesis by simp
qed

subsection \<open>Redirect chains\<close>

text \<open>
  \<open>findOriginalRequest\<close> finds an entry only if its chain already holds the id, and a
  chain grows only when \<open>findOriginalRequest\<close> finds its entry. Chains start empty, so
  they stay empty: no handler ever extends one.
\<close>

lemma list_all_update:
  "list_all Q al \<Longrightarrow> Q (k, v) \<Longrightarrow> list_all Q (AList.update k v al)"
  by (induction al) auto

lemma findOriginalRequest_empty:
  "list_all (\<lambda>(k, pending). rq_redirectChain (pend_request pending) = []) entries \<Longrightarrow>
   findOriginalRequest entries requestId = None"
  by (induction entries) auto

lemma chains_lookup:
  "list_all (\<lambda>(k, pending). rq_redirectChain (pend_request pending) = []) al \<Longrightarrow>
   map_of al k = Some p \<Longrightarrow> rq_redirectChain (pend_request p) = []"
  by (induction al) (auto split: if_splits)

lemma attach_body_request:
  "attach_body pending bodyData n = Some pending' \<Longrightarrow> pend_request pending' = pend_request pending"
  by (auto simp: attach_body_def bind_eq_Some_conv split: if_splits)

lemma chains_empty_init: "chains_empty (EventHandler rm)"
  by (simp add: chains_empty_def EventHandler_def)

lemma chains_empty_requestWillBeSent:
  assumes inv: "chains_empty eh"
    and run: "handleRequestWillBeSent P now uuid created eh params = Some eh'"
  shows "chains_empty eh'"
proof -
  have none: "findOriginalRequest (pendingRequests eh) k = None" for k
    using inv by (simp add: chains_empty_def findOriginalRequest_empty)
  from run inv show ?thesis
    by (auto simp: handleRequestWillBeSent_def none chains_empty_def bind_eq_Some_conv Let_def
          intro!: list_all_update)
qed

lemma chains_empty_responseReceived:
  assumes inv: "chains_empty eh" and run: "handleResponseReceived P now eh params = Some eh'"
  shows "chains_empty eh'"
proof -
  have look: "rq_redirectChain (pend_request p) = []"
    if "map_of (pendingRequests eh) k = Some p" for k p
    using inv that by (auto simp: chains_empty_def dest: chains_lookup)
  from run inv show ?thesis
    by (auto simp: handleResponseReceived_def chains_empty_def bind_eq_Some_conv Let_def
          split: option.splits intro!: list_all_update)
       (rule look, assumption)
qed

lemma chains_empty_loadingFinished:
  assumes inv: "chains_empty eh" and run: "handleLoadingFinished P eh params = Some eh'"
  shows "chains_empty eh'"
proof -
  have look: "rq_redirectChain (pend_request p) = []"
    if "map_of (pendingRequests eh) k = Some p" for k p
    using inv that by (auto simp: chains_empty_def dest: chains_lookup)
  from run inv show ?thesis
    by (auto simp: handleLoadingFinished_def chains_empty_def bind_eq_Some_conv Let_def
          split: option.splits intro!: list_all_update dest!: attach_body_request)
       (rule look, assumption)
qed

lemma chains_empty_loadingFailed:
  assumes inv: "chains_empty eh" and run: "handleLoadingFailed eh params = Some eh'"
  shows "chains_empty eh'"
proof -
  have look: "rq_redirectChain (pend_request p) = []"
    if "map_of (pendingRequests eh) k = Some p" for k p
    using inv that by (auto simp: chains_empty_def dest: chains_lookup)
  from run inv show ?thesis
    by (auto simp: handleLoadingFailed_def chains_empty_def bind_eq_Some_conv Let_def
          split: option.splits intro!: list_all_update)
       (rule look, assumption)
qed

text \<open>
  Claim C3, on the code. Event A initiates request \<open>1\<close>; event B initiates request
  \<open>2\<close> with \<open>redirectResponse\<close> set, pointing back at the URL of request \<open>1\<close>;
  then request \<open>1\<close> finishes loading. The claim expects \<open>2\<close> in the redirect chain
  of request \<open>1\<close>. The handler's entry for request \<open>1\<close> has an empty chain, and the
  record of request \<open>1\<close> that reaches storage has no \<open>redirectChain\<close> property at
  all.
\<close>

theorem redirect_chain_stays_empty:
  "do { eh1 \<leftarrow> handleRequestWillBeSent stub_platform (JNum 1) (JStr ''id-1'') (JStr ''t1'')
                 (EventHandler (setSession RecordingManager (JStr ''S1'') None)) event_A;
        eh2 \<leftarrow> handleRequestWillBeSent stub_platform (JNum 2) (JStr ''id-2'') (JStr ''t2'') eh1 event_B;
        eh3 \<leftarrow> handleLoadingFinished stub_platform eh2
                 (JObj [(''requestId'', JStr ''1''), (''encodedDataLength'', JNum 0)]);
        Some (map (\<lambda>(k, p). (k, rq_redirectChain (pend_request p))) (pendingRequests eh3),
              map (\<lambda>r. (rec_requestId r, rec_status r, getprop (rec_request r) ''redirectChain''))
                  (saved (recordingManager eh3))) }
   = Some ([(JStr ''1'', []), (JStr ''2'', [])],
           [(JStr ''1'', Completed, Some JUndefined)])"
  by (simp add: event_A_def event_B_def handleRequestWillBeSent_def handleLoadingFinished_def
      EventHandler_def setSession_def RecordingManager_def DataFilters_def queryString_of_def
      stub_platform_def handleRequest_def applyToRequest_def request_fields_def js_or_def
      request_record_obj_def handleRequestComplete_def merge_body_def attach_body_def Let_def
      getprop_opt_def)

end
